theory Spec2Isabelle
  imports Complex_Main
begin

section \<open>Floating-point values\<close>

text \<open>
  Python floats are IEEE doubles. The model keeps the three special values apart and
  represents every finite value by the real number it denotes; rounding, overflow to
  infinity and the sign of zero are not modelled. Every statement below that speaks of
  a value being "exactly" something relies only on identities that hold for doubles too
  (\<open>x + 0 * z = x\<close>, absorption of NaN).
\<close>

datatype fval = Fin real | PInf | NInf | NaN

fun fneg :: "fval \<Rightarrow> fval" where
  "fneg (Fin a) = Fin (- a)"
| "fneg PInf = NInf"
| "fneg NInf = PInf"
| "fneg NaN = NaN"

fun fadd :: "fval \<Rightarrow> fval \<Rightarrow> fval" where
  "fadd (Fin a) (Fin b) = Fin (a + b)"
| "fadd (Fin a) PInf = PInf"
| "fadd (Fin a) NInf = NInf"
| "fadd PInf (Fin b) = PInf"
| "fadd PInf PInf = PInf"
| "fadd PInf NInf = NaN"
| "fadd NInf (Fin b) = NInf"
| "fadd NInf NInf = NInf"
| "fadd NInf PInf = NaN"
| "fadd NaN y = NaN"
| "fadd x NaN = NaN"

definition fsub :: "fval \<Rightarrow> fval \<Rightarrow> fval" where
  "fsub x y = fadd x (fneg y)"

fun fmul :: "fval \<Rightarrow> fval \<Rightarrow> fval" where
  "fmul (Fin a) (Fin b) = Fin (a * b)"
| "fmul (Fin a) PInf = (if a = 0 then NaN else if 0 < a then PInf else NInf)"
| "fmul (Fin a) NInf = (if a = 0 then NaN else if 0 < a then NInf else PInf)"
| "fmul PInf (Fin b) = (if b = 0 then NaN else if 0 < b then PInf else NInf)"
| "fmul NInf (Fin b) = (if b = 0 then NaN else if 0 < b then NInf else PInf)"
| "fmul PInf PInf = PInf"
| "fmul PInf NInf = NInf"
| "fmul NInf PInf = NInf"
| "fmul NInf NInf = PInf"
| "fmul NaN y = NaN"
| "fmul x NaN = NaN"

text \<open>Division by a positive count, the only division the statistics perform.\<close>

fun fdivn :: "fval \<Rightarrow> nat \<Rightarrow> fval" where
  "fdivn (Fin a) n = Fin (a / real n)"
| "fdivn x n = x"

fun fsqrt :: "fval \<Rightarrow> fval" where
  "fsqrt (Fin a) = (if a < 0 then NaN else Fin (sqrt a))"
| "fsqrt PInf = PInf"
| "fsqrt NInf = NaN"
| "fsqrt NaN = NaN"

text \<open>The comparison \<open>x <= y\<close> of Python floats: false whenever NaN is involved.\<close>

fun fle :: "fval \<Rightarrow> fval \<Rightarrow> bool" where
  "fle (Fin a) (Fin b) = (a \<le> b)"
| "fle (Fin a) PInf = True"
| "fle (Fin a) NInf = False"
| "fle PInf (Fin b) = False"
| "fle PInf PInf = True"
| "fle PInf NInf = False"
| "fle NInf (Fin b) = True"
| "fle NInf PInf = True"
| "fle NInf NInf = True"
| "fle NaN y = False"
| "fle x NaN = False"

text \<open>\<open>np.signbit\<close> on a value that is not NaN (the sign of zero is not modelled).\<close>

fun negative :: "fval \<Rightarrow> bool" where
  "negative (Fin a) = (a < 0)"
| "negative NInf = True"
| "negative PInf = False"
| "negative NaN = False"

definition fsum :: "fval list \<Rightarrow> fval" where
  "fsum xs = foldr fadd xs (Fin 0)"

section \<open>Tables\<close>

text \<open>
  A pandas DataFrame: a row index and a list of labelled, typed columns. The dtypes are
  the ones \<open>pd.read_csv\<close> infers (line 82 is the script's only source of tables):
  integer, floating point, boolean and \<open>object\<close> (text). A missing entry is NaN, as in
  pandas.
\<close>

datatype dtype = Int64 | Float64 | Bool | Object

datatype cell = Num fval | Flag bool | Text string

record column =
  col_name :: string
  col_dtype :: dtype
  col_values :: "cell list"

record frame =
  index :: "nat list"
  columns :: "column list"

definition nrows :: "frame \<Rightarrow> nat" where
  "nrows f = length (index f)"

definition column_names :: "frame \<Rightarrow> string list" where
  "column_names f = map col_name (columns f)"

fun cell_ok :: "dtype \<Rightarrow> cell \<Rightarrow> bool" where
  "cell_ok Int64 (Num (Fin a)) = (a \<in> \<int>)"
| "cell_ok Int64 c = False"
| "cell_ok Float64 (Num x) = True"
| "cell_ok Float64 c = False"
| "cell_ok Bool (Flag b) = True"
| "cell_ok Bool c = False"
| "cell_ok Object c = True"

definition wf_column :: "nat \<Rightarrow> column \<Rightarrow> bool" where
  "wf_column n col \<longleftrightarrow>
     length (col_values col) = n \<and> list_all (cell_ok (col_dtype col)) (col_values col)"

definition wf_frame :: "frame \<Rightarrow> bool" where
  "wf_frame f \<longleftrightarrow> distinct (column_names f) \<and> list_all (wf_column (nrows f)) (columns f)"



text \<open>\<open>df[column_name]\<close>: the columns carrying that label (exactly one when labels are unique).\<close>

definition getitem :: "frame \<Rightarrow> string \<Rightarrow> column list" where
  "getitem f c = filter (\<lambda>col. col_name col = c) (columns f)"

text \<open>\<open>pd.api.types.is_numeric_dtype\<close>: numbers and booleans are numeric, \<open>object\<close> is not.\<close>

fun is_numeric_dtype :: "dtype \<Rightarrow> bool" where
  "is_numeric_dtype Int64 = True"
| "is_numeric_dtype Float64 = True"
| "is_numeric_dtype Bool = True"
| "is_numeric_dtype Object = False"

section \<open>Column statistics\<close>

text \<open>
  \<open>Series.mean()\<close> and \<open>Series.std()\<close> with their defaults \<open>skipna=True\<close> and
  \<open>ddof=1\<close>: NaN entries are dropped, the rest is read as float64. With no entry left
  the mean is NaN; with at most one entry left the standard deviation is NaN.
\<close>

fun isna :: "cell \<Rightarrow> bool" where
  "isna (Num NaN) = True"
| "isna c = False"

fun as_float :: "cell \<Rightarrow> fval" where
  "as_float (Num x) = x"
| "as_float (Flag b) = Fin (if b then 1 else 0)"
| "as_float (Text s) = NaN"

definition notna :: "cell list \<Rightarrow> fval list" where
  "notna vs = map as_float (filter (\<lambda>v. \<not> isna v) vs)"

definition series_mean :: "cell list \<Rightarrow> fval" where
  "series_mean vs =
     (let xs = notna vs; count = length xs
      in if 0 < count then fdivn (fsum xs) count else NaN)"

definition series_std :: "cell list \<Rightarrow> fval" where
  "series_std vs =
     (let xs = notna vs; count = length xs
      in if count \<le> 1 then NaN
         else let avg = fdivn (fsum xs) count;
                  sqr = map (\<lambda>x. fmul (fsub avg x) (fsub avg x)) xs
              in fsqrt (fdivn (fsum sqr) (count - 1)))"

section \<open>Exceptions and the log\<close>

datatype py_exn =
    TypeError string
  | ValueError string
  | FileNotFoundError string
  | EmptyDataError string
  | ParserError string
  | OtherError string

fun exn_msg :: "py_exn \<Rightarrow> string" where
  "exn_msg (TypeError s) = s"
| "exn_msg (ValueError s) = s"
| "exn_msg (FileNotFoundError s) = s"
| "exn_msg (EmptyDataError s) = s"
| "exn_msg (ParserError s) = s"
| "exn_msg (OtherError s) = s"

datatype level = INFO | ERROR

definition quoted :: "string \<Rightarrow> string" where
  "quoted s = [CHR 0x27] @ s @ [CHR 0x27]"

definition digit :: "nat \<Rightarrow> char" where
  "digit d = char_of (48 + d)"

fun str_nat :: "nat \<Rightarrow> string" where
  "str_nat n = (if n < 10 then [digit n] else str_nat (n div 10) @ [digit (n mod 10)])"

declare str_nat.simps [simp del]

definition str_int :: "int \<Rightarrow> string" where
  "str_int i = (if i < 0 then CHR ''-'' # str_nat (nat (- i)) else str_nat (nat i))"

section \<open>The random generator\<close>

text \<open>
  \<open>np.random.normal(loc, scale, size)\<close> rejects a negative scale with
  \<open>ValueError("scale < 0")\<close> (NaN passes) and otherwise returns
  \<open>loc + scale * z\<close> for \<open>size\<close> successive standard-normal variates \<open>z\<close> of the
  process-global generator. The generator is the parameter \<open>g\<close>: its \<open>i\<close>-th variate is
  \<open>g i\<close>, a finite number. The array is assumed to fit in memory: a count too large to
  allocate is not modelled.
\<close>

definition normal :: "(nat \<Rightarrow> real) \<Rightarrow> fval \<Rightarrow> fval \<Rightarrow> nat \<Rightarrow> py_exn + fval list" where
  "normal g loc scale n =
     (if negative scale then Inl (ValueError ''scale < 0'')
      else Inr (map (\<lambda>i. fadd loc (fmul scale (Fin (g i)))) [0..<n]))"

section \<open>Building and concatenating tables\<close>

text \<open>\<open>pd.DataFrame({column_name: outliers})\<close>: one float64 column, default index.\<close>

definition DataFrame :: "string \<Rightarrow> fval list \<Rightarrow> frame" where
  "DataFrame c outliers =
     \<lparr>index = [0..<length outliers],
      columns = [\<lparr>col_name = c, col_dtype = Float64, col_values = map Num outliers\<rparr>]\<rparr>"

text \<open>
  \<open>pd.concat([a, b], ignore_index=True)\<close> for tables with unique labels: the labels of
  \<open>a\<close> followed by those of \<open>b\<close> that \<open>a\<close> lacks; in each column the entries of \<open>a\<close>
  followed by those of \<open>b\<close>, NaN where a table lacks the column; a fresh index
  \<open>0, 1, ...\<close>. The resulting dtype follows pandas' promotion for non-empty pieces; no
  statement below depends on it.
\<close>

definition lookup_col :: "frame \<Rightarrow> string \<Rightarrow> column option" where
  "lookup_col f c = find (\<lambda>col. col_name col = c) (columns f)"

definition reindexed :: "frame \<Rightarrow> string \<Rightarrow> cell list" where
  "reindexed f c =
     (case lookup_col f c of
        Some col \<Rightarrow> col_values col
      | None \<Rightarrow> replicate (nrows f) (Num NaN))"

fun can_hold_na :: "dtype \<Rightarrow> dtype" where
  "can_hold_na Int64 = Float64"
| "can_hold_na Float64 = Float64"
| "can_hold_na Bool = Object"
| "can_hold_na Object = Object"

fun find_common_type :: "dtype \<Rightarrow> dtype \<Rightarrow> dtype" where
  "find_common_type Int64 Int64 = Int64"
| "find_common_type Int64 Float64 = Float64"
| "find_common_type Float64 Int64 = Float64"
| "find_common_type Float64 Float64 = Float64"
| "find_common_type Bool Bool = Bool"
| "find_common_type x y = Object"

definition concat_dtype :: "frame \<Rightarrow> frame \<Rightarrow> string \<Rightarrow> dtype" where
  "concat_dtype a b c =
     (case (lookup_col a c, lookup_col b c) of
        (Some x, Some y) \<Rightarrow> find_common_type (col_dtype x) (col_dtype y)
      | (Some x, None) \<Rightarrow> can_hold_na (col_dtype x)
      | (None, Some y) \<Rightarrow> can_hold_na (col_dtype y)
      | (None, None) \<Rightarrow> Object)"

definition pd_concat :: "frame \<Rightarrow> frame \<Rightarrow> frame" where
  "pd_concat a b =
     \<lparr>index = [0..<nrows a + nrows b],
      columns =
        map (\<lambda>c. \<lparr>col_name = c, col_dtype = concat_dtype a b c,
                  col_values = reindexed a c @ reindexed b c\<rparr>)
            (column_names a @ filter (\<lambda>c. c \<notin> set (column_names a)) (column_names b))\<rparr>"

section \<open>The interpreter state\<close>

text \<open>
  DataFrame objects live in a store, addressed by position; a Python variable holding a
  table holds its address. An address outside the store stands for an argument that is
  not a DataFrame. The state also carries the log written through \<open>logging\<close> and the
  file system, whose type is left open.
\<close>

type_synonym addr = nat

record 'fs world =
  frames :: "frame list"
  log_lines :: "(level \<times> string) list"
  fs :: 'fs

definition deref :: "'fs world \<Rightarrow> addr \<Rightarrow> frame option" where
  "deref w a = (if a < length (frames w) then Some (frames w ! a) else None)"

definition alloc :: "frame \<Rightarrow> 'fs world \<Rightarrow> addr \<times> 'fs world" where
  "alloc f w = (length (frames w), w\<lparr>frames := frames w @ [f]\<rparr>)"

definition logging :: "level \<Rightarrow> string \<Rightarrow> 'fs world \<Rightarrow> 'fs world" where
  "logging l s w = w\<lparr>log_lines := log_lines w @ [(l, s)]\<rparr>"

section \<open>inject_outliers\<close>

text \<open>
  Lines 41--50: the checks, in the order of the source; the first that fails raises.
  When all pass, the result is the table and the Series \<open>df[column_name]\<close> that the rest
  of the body reads.
\<close>

definition validate ::
  "'fs world \<Rightarrow> addr \<Rightarrow> string \<Rightarrow> int \<Rightarrow> fval \<Rightarrow> py_exn + frame \<times> column" where
  "validate w df column_name num_outliers std_multiplier =
     (case deref w df of
        None \<Rightarrow> Inl (TypeError ''Input must be a Pandas DataFrame.'')
      | Some f \<Rightarrow>
          if column_name \<notin> set (column_names f) then
            Inl (ValueError (''Column '' @ quoted column_name @ '' not found in DataFrame.''))
          else
            (case getitem f column_name of
               [series] \<Rightarrow>
                 if \<not> is_numeric_dtype (col_dtype series) then
                   Inl (TypeError (''Column '' @ quoted column_name @ '' must be numeric.''))
                 else if num_outliers < 0 then
                   Inl (ValueError ''Number of outliers must be non-negative.'')
                 else if fle std_multiplier (Fin 0) then
                   Inl (ValueError ''Standard deviation multiplier must be positive.'')
                 else Inr (f, series)
             | _ \<Rightarrow> Inl (TypeError (''Column '' @ quoted column_name @ '' must be numeric.''))))"

text \<open>Lines 40--63: the body of the \<open>try\<close>; \<open>Inl\<close> is a raised exception.\<close>

definition inject_body ::
  "(nat \<Rightarrow> real) \<Rightarrow> addr \<Rightarrow> string \<Rightarrow> int \<Rightarrow> fval \<Rightarrow> 'fs world \<Rightarrow> py_exn + addr \<times> 'fs world" where
  "inject_body g df column_name num_outliers std_multiplier w =
     (case validate w df column_name num_outliers std_multiplier of
        Inl e \<Rightarrow> Inl e
      | Inr (f, series) \<Rightarrow>
          let mean = series_mean (col_values series);
              std = series_std (col_values series)
          in case normal g mean (fmul std std_multiplier) (nat num_outliers) of
               Inl e \<Rightarrow> Inl e
             | Inr outliers \<Rightarrow>
                 let (df', w') = alloc (pd_concat f (DataFrame column_name outliers)) w
                 in Inr (df', logging INFO
                       (''Successfully injected '' @ str_int num_outliers
                          @ '' outliers into column '' @ quoted column_name @ ''.'') w'))"

text \<open>Lines 39--70: the handlers turn every exception into a log line and \<open>None\<close>.\<close>

definition inject_outliers ::
  "(nat \<Rightarrow> real) \<Rightarrow> addr \<Rightarrow> string \<Rightarrow> int \<Rightarrow> fval \<Rightarrow> 'fs world \<Rightarrow> addr option \<times> 'fs world" where
  "inject_outliers g df column_name num_outliers std_multiplier w =
     (case inject_body g df column_name num_outliers std_multiplier w of
        Inr (df', w') \<Rightarrow> (Some df', w')
      | Inl (TypeError s) \<Rightarrow> (None, logging ERROR (''Error injecting outliers: '' @ s) w)
      | Inl (ValueError s) \<Rightarrow> (None, logging ERROR (''Error injecting outliers: '' @ s) w)
      | Inl e \<Rightarrow> (None, logging ERROR (''An unexpected error occurred: '' @ exn_msg e) w))"


text \<open>The precondition "the column is present and of numeric kind" of lines 43--46.\<close>

definition numeric_column :: "frame \<Rightarrow> string \<Rightarrow> bool" where
  "numeric_column f c =
     (case getitem f c of [series] \<Rightarrow> is_numeric_dtype (col_dtype series) | _ \<Rightarrow> False)"

section \<open>main\<close>

text \<open>
  Lines 80--106, after \<open>parse_args\<close>. The loader \<open>pd.read_csv\<close> and the writer
  \<open>DataFrame.to_csv\<close> are parameters: the loader returns a table or raises, the writer
  returns the file system it leaves behind and the exception it raised, if any. The
  result is the exit status of the process and the final state. An address returned by
  \<open>inject_outliers\<close> always holds a table, so the branch for an address that holds none
  is never taken.
\<close>

record args =
  input_file :: string
  output_file :: string
  column_name :: string
  num_outliers :: int
  std_multiplier :: fval

definition handlers :: "args \<Rightarrow> py_exn \<Rightarrow> 'fs world \<Rightarrow> nat \<times> 'fs world" where
  "handlers a e w =
     (1, logging ERROR
           (case e of
              FileNotFoundError s \<Rightarrow> ''Input file '' @ quoted (input_file a) @ '' not found.''
            | EmptyDataError s \<Rightarrow> ''Input file '' @ quoted (input_file a) @ '' is empty.''
            | ParserError s \<Rightarrow>
                ''Error parsing input file '' @ quoted (input_file a)
                  @ ''.  Ensure it is a valid CSV.''
            | _ \<Rightarrow> ''An unexpected error occurred: '' @ exn_msg e) w)"

definition main ::
  "('fs \<Rightarrow> string \<Rightarrow> py_exn + frame) \<Rightarrow> (frame \<Rightarrow> string \<Rightarrow> 'fs \<Rightarrow> py_exn option \<times> 'fs) \<Rightarrow>
   (nat \<Rightarrow> real) \<Rightarrow> args \<Rightarrow> 'fs world \<Rightarrow> nat \<times> 'fs world" where
  "main read_csv to_csv g a w =
     (case read_csv (fs w) (input_file a) of
        Inl e \<Rightarrow> handlers a e w
      | Inr f \<Rightarrow>
          (let (df, w1) = alloc f w;
               (df_with_outliers, w2) =
                 inject_outliers g df (column_name a) (num_outliers a) (std_multiplier a) w1
           in (case df_with_outliers of
                 None \<Rightarrow>
                   (1, logging ERROR
                         ''Outlier injection failed.  See previous error messages for details.'' w2)
               | Some out \<Rightarrow>
                   (case deref w2 out of
                      None \<Rightarrow> handlers a (OtherError []) w2
                    | Some result \<Rightarrow>
                        (case to_csv result (output_file a) (fs w2) of
                           (None, fs') \<Rightarrow>
                             (0, logging INFO
                                   (''Outlier injection complete. Output saved to ''
                                      @ quoted (output_file a) @ ''.'') (w2\<lparr>fs := fs'\<rparr>))
                         | (Some e, fs') \<Rightarrow> handlers a e (w2\<lparr>fs := fs'\<rparr>))))))"

text \<open>
  The values line 57 draws once validation has passed: \<open>mean + (std * std_multiplier) * z\<close>
  for the first \<open>num_outliers\<close> variates of the generator.
\<close>

definition outliers_of :: "(nat \<Rightarrow> real) \<Rightarrow> column \<Rightarrow> fval \<Rightarrow> int \<Rightarrow> fval list" where
  "outliers_of g s m n =
     map (\<lambda>i. fadd (series_mean (col_values s))
                 (fmul (fmul (series_std (col_values s)) m) (Fin (g i)))) [0..<nat n]"

text \<open>What \<open>pd.concat\<close> adds below the old entries of the column labelled \<open>nm\<close>.\<close>

definition appended :: "string \<Rightarrow> fval list \<Rightarrow> string \<Rightarrow> cell list" where
  "appended c outs nm = (if nm = c then map Num outs else replicate (length outs) (Num NaN))"

section \<open>Example inputs\<close>

text \<open>
  The table of the specification's scenario \<open>x = [5, 5, 5]\<close> with a text column beside
  it, a store holding just that table, and a generator.
\<close>

definition example_table :: frame where
  "example_table =
     \<lparr>index = [0, 1, 2],
      columns =
        [\<lparr>col_name = ''x'', col_dtype = Int64,
          col_values = [Num (Fin 5), Num (Fin 5), Num (Fin 5)]\<rparr>,
         \<lparr>col_name = ''label'', col_dtype = Object,
          col_values = [Text ''a'', Text ''b'', Num NaN]\<rparr>]\<rparr>"

definition example_world :: "unit world" where
  "example_world = \<lparr>frames = [example_table], log_lines = [], fs = ()\<rparr>"

definition example_gauss :: "nat \<Rightarrow> real" where
  "example_gauss i = real i - 1 / 2"


text \<open>
  A loader and a writer over a file system that maps paths to tables, the arguments of a
  run and the state it starts in.
\<close>

definition example_read_csv :: "(string \<times> frame) list \<Rightarrow> string \<Rightarrow> py_exn + frame" where
  "example_read_csv files path =
     (case map_of files path of
        None \<Rightarrow> Inl (FileNotFoundError path)
      | Some f \<Rightarrow> Inr f)"

definition example_to_csv ::
  "frame \<Rightarrow> string \<Rightarrow> (string \<times> frame) list \<Rightarrow> py_exn option \<times> (string \<times> frame) list" where
  "example_to_csv f path files = (None, (path, f) # files)"

definition example_args :: args where
  "example_args =
     \<lparr>input_file = ''in.csv'', output_file = ''out.csv'', column_name = ''x'',
      num_outliers = 2, std_multiplier = Fin 3\<rparr>"

definition example_disk :: "(string \<times> frame) list world" where
  "example_disk = \<lparr>frames = [], log_lines = [], fs = [(''in.csv'', example_table)]\<rparr>"

section \<open>Floating-point facts\<close>


lemma fsqrt_not_negative: "\<not> negative (fsqrt x)"
  by (cases x) auto

lemma series_std_not_negative: "\<not> negative (series_std vs)"
  by (simp add: series_std_def Let_def fsqrt_not_negative)

lemma scale_not_negative:
  "\<not> negative s \<Longrightarrow> \<not> fle m (Fin 0) \<Longrightarrow> \<not> negative (fmul s m)"
  by (cases s; cases m) (auto simp: mult_less_0_iff)

section \<open>Validation and the body of the call\<close>

lemma validate_Inr:
  "validate w df c n m = Inr (f, s) \<longleftrightarrow>
     deref w df = Some f \<and> c \<in> set (column_names f) \<and> getitem f c = [s] \<and>
     is_numeric_dtype (col_dtype s) \<and> 0 \<le> n \<and> \<not> fle m (Fin 0)"
  by (auto simp: validate_def split: option.splits list.splits)

lemma getitem_in_names: "getitem f c = [s] \<Longrightarrow> c \<in> set (column_names f)"
proof -
  assume a: "getitem f c = [s]"
  then have "s \<in> set (filter (\<lambda>col. col_name col = c) (columns f))"
    by (simp add: getitem_def)
  then show ?thesis by (auto simp: column_names_def)
qed

lemma numeric_column_iff:
  "numeric_column f c \<longleftrightarrow> (\<exists>s. getitem f c = [s] \<and> is_numeric_dtype (col_dtype s))"
  by (auto simp: numeric_column_def split: list.splits)

lemma validate_passes:
  "deref w df = Some f \<Longrightarrow> getitem f c = [s] \<Longrightarrow> is_numeric_dtype (col_dtype s) \<Longrightarrow>
   0 \<le> n \<Longrightarrow> \<not> fle m (Fin 0) \<Longrightarrow> validate w df c n m = Inr (f, s)"
  by (simp add: validate_Inr getitem_in_names)

lemma normal_after_validation:
  "\<not> fle m (Fin 0) \<Longrightarrow>
   normal g (series_mean (col_values s)) (fmul (series_std (col_values s)) m) (nat n)
     = Inr (outliers_of g s m n)"
  by (simp add: normal_def outliers_of_def scale_not_negative series_std_not_negative)

lemma inject_body_success:
  assumes "validate w df c n m = Inr (f, s)"
  shows "inject_body g df c n m w =
           Inr (length (frames w),
                logging INFO (''Successfully injected '' @ str_int n
                               @ '' outliers into column '' @ quoted c @ ''.'')
                  (w\<lparr>frames := frames w @ [pd_concat f (DataFrame c (outliers_of g s m n))]\<rparr>))"
proof -
  from assms have m: "\<not> fle m (Fin 0)" by (simp add: validate_Inr)
  show ?thesis
    by (simp add: inject_body_def assms Let_def normal_after_validation [OF m] alloc_def)
qed

lemma inject_outliers_success:
  assumes "validate w df c n m = Inr (f, s)"
  shows "inject_outliers g df c n m w =
           (Some (length (frames w)),
                logging INFO (''Successfully injected '' @ str_int n
                               @ '' outliers into column '' @ quoted c @ ''.'')
                  (w\<lparr>frames := frames w @ [pd_concat f (DataFrame c (outliers_of g s m n))]\<rparr>))"
  by (simp add: inject_outliers_def inject_body_success [OF assms])

lemma validate_error_kind:
  "validate w df c n m = Inl e \<Longrightarrow> (\<exists>s. e = TypeError s) \<or> (\<exists>s. e = ValueError s)"
  by (auto simp: validate_def split: option.splits list.splits if_splits)

lemma inject_outliers_failure:
  assumes "validate w df c n m = Inl e"
  shows "inject_outliers g df c n m w =
           (None, logging ERROR (''Error injecting outliers: '' @ exn_msg e) w)"
  using validate_error_kind [OF assms]
  by (auto simp: inject_outliers_def inject_body_def assms)


section \<open>Concatenation\<close>

lemma nrows_DataFrame: "nrows (DataFrame c outs) = length outs"
  by (simp add: nrows_def DataFrame_def)

lemma nrows_pd_concat: "nrows (pd_concat a b) = nrows a + nrows b"
  by (simp add: nrows_def pd_concat_def)


lemma column_names_pd_concat:
  "c \<in> set (column_names f) \<Longrightarrow> column_names (pd_concat f (DataFrame c outs)) = column_names f"
  by (simp add: column_names_def pd_concat_def DataFrame_def comp_def)

lemma find_distinct:
  "distinct (map col_name cs) \<Longrightarrow> col \<in> set cs \<Longrightarrow>
   find (\<lambda>x. col_name x = col_name col) cs = Some col"
  by (induction cs) force+

lemma lookup_col_distinct:
  "distinct (column_names f) \<Longrightarrow> col \<in> set (columns f) \<Longrightarrow>
   lookup_col f (col_name col) = Some col"
  by (simp add: lookup_col_def column_names_def find_distinct)

lemma reindexed_own:
  "distinct (column_names f) \<Longrightarrow> col \<in> set (columns f) \<Longrightarrow>
   reindexed f (col_name col) = col_values col"
  by (simp add: reindexed_def lookup_col_distinct)

lemma reindexed_DataFrame:
  "reindexed (DataFrame c outs) nm =
     (if nm = c then map Num outs else replicate (length outs) (Num NaN))"
  by (simp add: reindexed_def lookup_col_def DataFrame_def nrows_def)

lemma columns_pd_concat:
  assumes "distinct (column_names f)" and "c \<in> set (column_names f)"
  shows "columns (pd_concat f (DataFrame c outs)) =
           map (\<lambda>col. \<lparr>col_name = col_name col,
                       col_dtype = concat_dtype f (DataFrame c outs) (col_name col),
                       col_values = col_values col @ appended c outs (col_name col)\<rparr>)
               (columns f)"
proof -
  have "column_names f @ filter (\<lambda>x. x \<notin> set (column_names f)) (column_names (DataFrame c outs))
          = column_names f"
    using assms(2) by (simp add: column_names_def DataFrame_def)
  then have "columns (pd_concat f (DataFrame c outs)) =
      map (\<lambda>nm. \<lparr>col_name = nm, col_dtype = concat_dtype f (DataFrame c outs) nm,
                  col_values = reindexed f nm @ reindexed (DataFrame c outs) nm\<rparr>)
          (map col_name (columns f))"
    by (simp add: pd_concat_def column_names_def)
  also have "\<dots> = map (\<lambda>col. \<lparr>col_name = col_name col,
                       col_dtype = concat_dtype f (DataFrame c outs) (col_name col),
                       col_values = col_values col @ appended c outs (col_name col)\<rparr>)
               (columns f)"
    using assms(1) by (simp add: reindexed_own reindexed_DataFrame appended_def)
  finally show ?thesis .
qed


lemma length_appended: "length (appended c outs nm) = length outs"
  by (simp add: appended_def)

lemma concat_dtype_own:
  assumes "distinct (column_names f)" and "col \<in> set (columns f)"
  shows "concat_dtype f (DataFrame c outs) (col_name col) =
           (if col_name col = c then find_common_type (col_dtype col) Float64
            else can_hold_na (col_dtype col))"
proof -
  have "lookup_col (DataFrame c outs) nm =
          (if nm = c then Some \<lparr>col_name = c, col_dtype = Float64, col_values = map Num outs\<rparr>
           else None)" for nm
    by (simp add: lookup_col_def DataFrame_def)
  then show ?thesis
    by (simp add: concat_dtype_def lookup_col_distinct [OF assms])
qed

lemma cell_ok_can_hold_na: "cell_ok d v \<Longrightarrow> cell_ok (can_hold_na d) v"
  by (induction d v rule: cell_ok.induct) auto

lemma cell_ok_common_float: "cell_ok d v \<Longrightarrow> cell_ok (find_common_type d Float64) v"
  by (induction d v rule: cell_ok.induct) auto

lemma cell_ok_na: "cell_ok (can_hold_na d) (Num NaN)"
  by (cases d) auto

lemma cell_ok_num: "cell_ok (find_common_type d Float64) (Num x)"
  by (cases d) auto

lemma wf_pd_concat:
  assumes wf: "wf_frame f" and c: "c \<in> set (column_names f)"
  shows "wf_frame (pd_concat f (DataFrame c outs))"
proof -
  from wf have d: "distinct (column_names f)" by (simp add: wf_frame_def)
  have cols: "\<And>col. col \<in> set (columns f) \<Longrightarrow> wf_column (nrows f) col"
    using wf by (simp add: wf_frame_def list_all_iff)
  have "wf_column (nrows f + length outs)
          \<lparr>col_name = col_name col,
           col_dtype = concat_dtype f (DataFrame c outs) (col_name col),
           col_values = col_values col @ appended c outs (col_name col)\<rparr>"
    if "col \<in> set (columns f)" for col
  proof -
    from cols [OF that] have len: "length (col_values col) = nrows f"
      and ok: "\<And>v. v \<in> set (col_values col) \<Longrightarrow> cell_ok (col_dtype col) v"
      by (simp_all add: wf_column_def list_all_iff)
    show ?thesis
      by (auto simp: wf_column_def list_all_iff len length_appended concat_dtype_own [OF d that]
            appended_def cell_ok_can_hold_na cell_ok_common_float cell_ok_na cell_ok_num
          dest: ok)
  qed
  then show ?thesis
    by (simp add: wf_frame_def column_names_pd_concat [OF c] d columns_pd_concat [OF d c]
          list_all_iff nrows_pd_concat nrows_DataFrame)
qed




section \<open>Facts about the store\<close>

lemma deref_logging: "deref (logging l s w) a = deref w a"
  by (simp add: deref_def logging_def)

lemma deref_stored:
  "deref (w\<lparr>frames := frames w @ [F]\<rparr>) a =
     (if a = length (frames w) then Some F else deref w a)"
  by (auto simp: deref_def nth_append)

lemma deref_bound: "deref w a = Some f \<Longrightarrow> a < length (frames w)"
  by (simp add: deref_def split: if_splits)

lemma inject_outliers_valid:
  assumes "deref w df = Some f" and "numeric_column f c" and "0 \<le> n" and "\<not> fle m (Fin 0)"
  obtains s w' where "getitem f c = [s]"
    and "inject_outliers g df c n m w = (Some (length (frames w)), w')"
    and "deref w' (length (frames w)) = Some (pd_concat f (DataFrame c (outliers_of g s m n)))"
proof -
  from assms(2) obtain s where s: "getitem f c = [s]" "is_numeric_dtype (col_dtype s)"
    by (auto simp: numeric_column_iff)
  have v: "validate w df c n m = Inr (f, s)"
    using assms s by (simp add: validate_passes)
  show ?thesis
    by (rule that [OF s(1) inject_outliers_success [OF v]]) (simp add: deref_logging deref_stored)
qed

lemma length_outliers_of: "length (outliers_of g s m n) = nat n"
  by (simp add: outliers_of_def)

section \<open>Successful injection\<close>

text \<open>
  Claim C1. For every well-formed table held by the caller and valid parameters (the
  column is present and of numeric kind, \<open>num_outliers >= 0\<close>, and the multiplier passes
  the check of line 49, which every multiplier \<open>> 0\<close> does), \<open>inject_outliers\<close> returns
  a table that is again well formed, has the original number of rows plus
  \<open>num_outliers\<close>, and carries the original column labels, in the original order.
\<close>

theorem inject_row_count_and_columns:
  assumes "deref w df = Some f" and "wf_frame f" and "numeric_column f c"
    and "0 \<le> n" and "\<not> fle m (Fin 0)"
  shows "\<exists>df' w' f'. inject_outliers g df c n m w = (Some df', w') \<and> deref w' df' = Some f' \<and>
           wf_frame f' \<and> nrows f' = nrows f + nat n \<and> column_names f' = column_names f"
proof -
  obtain s w' where s: "getitem f c = [s]"
    and r: "inject_outliers g df c n m w = (Some (length (frames w)), w')"
    and d: "deref w' (length (frames w)) = Some (pd_concat f (DataFrame c (outliers_of g s m n)))"
    using inject_outliers_valid [OF assms(1,3,4,5)] by blast
  have c: "c \<in> set (column_names f)" using s by (rule getitem_in_names)
  show ?thesis
    using r d wf_pd_concat [OF assms(2) c] column_names_pd_concat [OF c]
    by (simp add: nrows_pd_concat nrows_DataFrame length_outliers_of)
qed



section \<open>The caller's table\<close>

text \<open>
  Claim C10. \<open>inject_outliers\<close> never changes a table of the caller: whatever the
  arguments, and whether the call succeeds or fails, every table in the store is the same
  after the call; a returned table is a new object, at an address that held no table
  before and differs from the argument's.
\<close>

theorem inject_does_not_mutate:
  assumes "inject_outliers g df c n m w = (r, w')"
  shows "(\<forall>a f. deref w a = Some f \<longrightarrow> deref w' a = Some f) \<and>
         (\<forall>df'. r = Some df' \<longrightarrow> deref w df' = None \<and> df' \<noteq> df \<and> deref w' df' \<noteq> None)"
proof (cases "validate w df c n m")
  case (Inl e)
  then show ?thesis
    using assms by (auto simp: inject_outliers_failure deref_logging)
next
  case (Inr p)
  obtain f s where p: "p = (f, s)" by (cases p)
  have v: "validate w df c n m = Inr (f, s)" using Inr p by simp
  then have "deref w df = Some f" by (simp add: validate_Inr)
  then have "df < length (frames w)" by (rule deref_bound)
  then show ?thesis
    using assms unfolding inject_outliers_success [OF v]
    by (auto simp: deref_logging deref_stored dest: deref_bound) (simp add: deref_def)
qed


section \<open>The example inputs are valid\<close>

lemma example_deref: "deref example_world 0 = Some example_table"
  by (simp add: deref_def example_world_def)

lemma example_wf: "wf_frame example_table"
  by (simp add: wf_frame_def wf_column_def column_names_def nrows_def example_table_def)

lemma example_numeric: "numeric_column example_table ''x''"
  by (simp add: numeric_column_def getitem_def example_table_def)

theorem inject_row_count_and_columns_witness:
  "deref example_world 0 = Some example_table \<and> wf_frame example_table \<and>
   numeric_column example_table ''x'' \<and> (0::int) \<le> 2 \<and> \<not> fle (Fin 3) (Fin 0) \<and>
   (\<exists>df' w' f'. inject_outliers example_gauss 0 ''x'' 2 (Fin 3) example_world = (Some df', w') \<and>
      deref w' df' = Some f' \<and> wf_frame f' \<and> nrows f' = 5 \<and>
      column_names f' = [''x'', ''label''])"
proof -
  have n: "(0::int) \<le> 2" and m: "\<not> fle (Fin 3) (Fin 0)" by simp_all
  have "nrows example_table + nat 2 = 5" "column_names example_table = [''x'', ''label'']"
    by (simp_all add: nrows_def column_names_def example_table_def)
  then show ?thesis
    using inject_row_count_and_columns [OF example_deref example_wf example_numeric n m,
        of example_gauss]
    by (simp add: example_deref example_wf example_numeric)
qed



theorem inject_does_not_mutate_witness:
  "\<exists>df' w'. inject_outliers example_gauss 0 ''x'' 2 (Fin 3) example_world = (Some df', w') \<and>
     deref w' 0 = Some example_table \<and> deref example_world df' = None \<and> df' \<noteq> 0 \<and>
     deref w' df' \<noteq> None"
proof -
  have n: "(0::int) \<le> 2" and m: "\<not> fle (Fin 3) (Fin 0)" by simp_all
  obtain df' w' where
    r: "inject_outliers example_gauss 0 ''x'' 2 (Fin 3) example_world = (Some df', w')"
    using inject_outliers_valid [OF example_deref example_numeric n m, of example_gauss]
    by blast
  show ?thesis
    using inject_does_not_mutate [OF r] r example_deref by blast
qed

section \<open>Validation\<close>

text \<open>
  Claim C3. The checks run in the order table type, column existence, numeric kind,
  \<open>num_outliers >= 0\<close>, \<open>std_multiplier > 0\<close>, and the first that fails determines the
  exception: each of the five exceptions is raised exactly when its own check fails and
  all earlier checks pass. In particular, when \<open>column_name\<close> is not among the labels of
  the table, the call fails with the "not found" error, whatever \<open>num_outliers\<close> and
  \<open>std_multiplier\<close> are. (The specification's ColumnNotFound, NonNumericColumn,
  InvalidCount and InvalidMultiplier are the exceptions of lines 44, 46, 48 and 50.)
\<close>

theorem validation_order:
  "(validate w df c n m = Inl (TypeError ''Input must be a Pandas DataFrame.'')
      \<longleftrightarrow> deref w df = None) \<and>
   (validate w df c n m = Inl (ValueError (''Column '' @ quoted c @ '' not found in DataFrame.''))
      \<longleftrightarrow> (\<exists>f. deref w df = Some f \<and> c \<notin> set (column_names f))) \<and>
   (validate w df c n m = Inl (TypeError (''Column '' @ quoted c @ '' must be numeric.''))
      \<longleftrightarrow> (\<exists>f. deref w df = Some f \<and> c \<in> set (column_names f) \<and> \<not> numeric_column f c)) \<and>
   (validate w df c n m = Inl (ValueError ''Number of outliers must be non-negative.'')
      \<longleftrightarrow> (\<exists>f. deref w df = Some f \<and> c \<in> set (column_names f) \<and> numeric_column f c \<and> n < 0)) \<and>
   (validate w df c n m = Inl (ValueError ''Standard deviation multiplier must be positive.'')
      \<longleftrightarrow> (\<exists>f. deref w df = Some f \<and> c \<in> set (column_names f) \<and> numeric_column f c \<and>
                0 \<le> n \<and> fle m (Fin 0))) \<and>
   (\<forall>f. deref w df = Some f \<longrightarrow> c \<notin> set (column_names f) \<longrightarrow>
      inject_outliers g df c n m w =
        (None, logging ERROR
           (''Error injecting outliers: Column '' @ quoted c @ '' not found in DataFrame.'') w))"
proof -
  have 1: "validate w df c n m = Inl (TypeError ''Input must be a Pandas DataFrame.'')
      \<longleftrightarrow> deref w df = None"
    by (auto simp: validate_def split: option.splits list.splits)
  have 2: "validate w df c n m = Inl (ValueError (''Column '' @ quoted c @ '' not found in DataFrame.''))
      \<longleftrightarrow> (\<exists>f. deref w df = Some f \<and> c \<notin> set (column_names f))"
    by (auto simp: validate_def split: option.splits list.splits)
  have 3: "validate w df c n m = Inl (TypeError (''Column '' @ quoted c @ '' must be numeric.''))
      \<longleftrightarrow> (\<exists>f. deref w df = Some f \<and> c \<in> set (column_names f) \<and> \<not> numeric_column f c)"
    by (auto simp: validate_def numeric_column_def split: option.splits list.splits)
  have 4: "validate w df c n m = Inl (ValueError ''Number of outliers must be non-negative.'')
      \<longleftrightarrow> (\<exists>f. deref w df = Some f \<and> c \<in> set (column_names f) \<and> numeric_column f c \<and> n < 0)"
    by (auto simp: validate_def numeric_column_def split: option.splits list.splits)
  have 5: "validate w df c n m = Inl (ValueError ''Standard deviation multiplier must be positive.'')
      \<longleftrightarrow> (\<exists>f. deref w df = Some f \<and> c \<in> set (column_names f) \<and> numeric_column f c \<and>
                0 \<le> n \<and> fle m (Fin 0))"
    by (auto simp: validate_def numeric_column_def split: option.splits list.splits)
  have 6: "inject_outliers g df c n m w =
        (None, logging ERROR
           (''Error injecting outliers: Column '' @ quoted c @ '' not found in DataFrame.'') w)"
    if "deref w df = Some f" "c \<notin> set (column_names f)" for f
  proof -
    have "validate w df c n m = Inl (ValueError (''Column '' @ quoted c @ '' not found in DataFrame.''))"
      using that by (simp add: validate_def)
    from inject_outliers_failure [OF this] show ?thesis by simp
  qed
  from 1 2 3 4 5 6 show ?thesis by blast
qed

theorem validation_order_witness:
  "deref example_world 0 = Some example_table \<and> ''y'' \<notin> set (column_names example_table) \<and>
   (- 1 :: int) < 0 \<and> fle (Fin 0) (Fin 0) \<and>
   validate example_world 0 ''y'' (- 1) (Fin 0)
     = Inl (ValueError (''Column '' @ quoted ''y'' @ '' not found in DataFrame.'')) \<and>
   inject_outliers example_gauss 0 ''y'' (- 1) (Fin 0) example_world =
     (None, logging ERROR
        (''Error injecting outliers: Column '' @ quoted ''y'' @ '' not found in DataFrame.'')
        example_world) \<and>
   validate example_world 0 ''x'' (- 1) (Fin 0)
     = Inl (ValueError ''Number of outliers must be non-negative.'')"
proof -
  have y: "''y'' \<notin> set (column_names example_table)"
    and x: "''x'' \<in> set (column_names example_table)"
    by (simp_all add: column_names_def example_table_def)
  note v = validation_order [of example_world 0 _ "- 1" "Fin 0" example_gauss]
  show ?thesis
    using v [of "''y''"] v [of "''x''"] y x example_deref example_numeric by simp
qed

text \<open>
  Claim C8. For every table with a numeric column: a negative \<open>num_outliers\<close> (such as
  \<open>-1\<close>) fails with the error of line 48, and with a valid count every
  \<open>std_multiplier <= 0\<close> (such as \<open>0\<close> or \<open>-2.5\<close>) fails with the error of line 50.
\<close>

theorem invalid_count_and_multiplier:
  assumes "deref w df = Some f" and "numeric_column f c"
  shows "(n < 0 \<longrightarrow>
            validate w df c n m = Inl (ValueError ''Number of outliers must be non-negative.'') \<and>
            inject_outliers g df c n m w =
              (None, logging ERROR
                 ''Error injecting outliers: Number of outliers must be non-negative.'' w)) \<and>
         (0 \<le> n \<longrightarrow> fle m (Fin 0) \<longrightarrow>
            validate w df c n m
              = Inl (ValueError ''Standard deviation multiplier must be positive.'') \<and>
            inject_outliers g df c n m w =
              (None, logging ERROR
                 ''Error injecting outliers: Standard deviation multiplier must be positive.'' w))"
proof -
  from assms(2) obtain s where s: "getitem f c = [s]" "is_numeric_dtype (col_dtype s)"
    by (auto simp: numeric_column_iff)
  have c: "c \<in> set (column_names f)" using s(1) by (rule getitem_in_names)
  have a: "validate w df c n m = Inl (ValueError ''Number of outliers must be non-negative.'')"
    if "n < 0"
    using that assms(1) s c by (simp add: validate_def)
  have b: "validate w df c n m = Inl (ValueError ''Standard deviation multiplier must be positive.'')"
    if "0 \<le> n" "fle m (Fin 0)"
    using that assms(1) s c by (simp add: validate_def)
  show ?thesis
    using a b inject_outliers_failure [OF a, of g] inject_outliers_failure [OF b, of g]
    by simp
qed

theorem invalid_count_and_multiplier_witness:
  "deref example_world 0 = Some example_table \<and> numeric_column example_table ''x'' \<and>
   inject_outliers example_gauss 0 ''x'' (- 1) (Fin 3) example_world =
     (None, logging ERROR
        ''Error injecting outliers: Number of outliers must be non-negative.'' example_world) \<and>
   inject_outliers example_gauss 0 ''x'' 2 (Fin 0) example_world =
     (None, logging ERROR
        ''Error injecting outliers: Standard deviation multiplier must be positive.''
        example_world) \<and>
   inject_outliers example_gauss 0 ''x'' 2 (Fin (- 5 / 2)) example_world =
     (None, logging ERROR
        ''Error injecting outliers: Standard deviation multiplier must be positive.''
        example_world)"
proof -
  note t = invalid_count_and_multiplier [OF example_deref example_numeric, of _ _ example_gauss]
  show ?thesis
    using t [of "- 1" "Fin 3"] t [of 2 "Fin 0"] t [of 2 "Fin (- 5 / 2)"]
    by (simp add: example_deref example_numeric)
qed

text \<open>
  Claim C2, as the code has it. On every validation failure \<open>inject_outliers\<close> returns
  \<open>None\<close>, the same value whatever the kind of failure, and leaves the state as it was
  but for one error-level log line \<open>Error injecting outliers: <message>\<close>; the exception,
  one of the five of lines 42--50, is visible to the caller only through that message.
\<close>

theorem failure_returns_None_and_logs:
  assumes "validate w df c n m = Inl e"
  shows "inject_outliers g df c n m w =
           (None, logging ERROR (''Error injecting outliers: '' @ exn_msg e) w) \<and>
         e \<in> set [TypeError ''Input must be a Pandas DataFrame.'',
                  ValueError (''Column '' @ quoted c @ '' not found in DataFrame.''),
                  TypeError (''Column '' @ quoted c @ '' must be numeric.''),
                  ValueError ''Number of outliers must be non-negative.'',
                  ValueError ''Standard deviation multiplier must be positive.'']"
proof -
  have "e \<in> set [TypeError ''Input must be a Pandas DataFrame.'',
                  ValueError (''Column '' @ quoted c @ '' not found in DataFrame.''),
                  TypeError (''Column '' @ quoted c @ '' must be numeric.''),
                  ValueError ''Number of outliers must be non-negative.'',
                  ValueError ''Standard deviation multiplier must be positive.'']"
    using assms by (auto simp: validate_def split: option.splits list.splits if_splits)
  with inject_outliers_failure [OF assms, of g] show ?thesis by blast
qed

theorem failure_returns_None_and_logs_witness:
  "validate example_world 0 ''label'' 2 (Fin 3)
     = Inl (TypeError (''Column '' @ quoted ''label'' @ '' must be numeric.'')) \<and>
   inject_outliers example_gauss 0 ''label'' 2 (Fin 3) example_world =
     (None, logging ERROR
        (''Error injecting outliers: Column '' @ quoted ''label'' @ '' must be numeric.'')
        example_world)"
proof -
  have v: "validate example_world 0 ''label'' 2 (Fin 3)
     = Inl (TypeError (''Column '' @ quoted ''label'' @ '' must be numeric.''))"
    by (simp add: validate_def example_deref column_names_def getitem_def example_table_def)
  from failure_returns_None_and_logs [OF v, of example_gauss] v show ?thesis by simp
qed

text \<open>
  Claim C2 as stated asks for a failure value that tells the kinds apart. On the example
  table the four kinds of failure raise four different exceptions, and the four calls
  return the same \<open>None\<close>.
\<close>

theorem same_None_for_every_failure_kind:
  "validate example_world 0 ''y'' 2 (Fin 3)
     = Inl (ValueError (''Column '' @ quoted ''y'' @ '' not found in DataFrame.'')) \<and>
   validate example_world 0 ''label'' 2 (Fin 3)
     = Inl (TypeError (''Column '' @ quoted ''label'' @ '' must be numeric.'')) \<and>
   validate example_world 0 ''x'' (- 1) (Fin 3)
     = Inl (ValueError ''Number of outliers must be non-negative.'') \<and>
   validate example_world 0 ''x'' 2 (Fin 0)
     = Inl (ValueError ''Standard deviation multiplier must be positive.'') \<and>
   fst (inject_outliers example_gauss 0 ''y'' 2 (Fin 3) example_world) = None \<and>
   fst (inject_outliers example_gauss 0 ''label'' 2 (Fin 3) example_world) = None \<and>
   fst (inject_outliers example_gauss 0 ''x'' (- 1) (Fin 3) example_world) = None \<and>
   fst (inject_outliers example_gauss 0 ''x'' 2 (Fin 0) example_world) = None"
proof -
  have 1: "validate example_world 0 ''y'' 2 (Fin 3)
     = Inl (ValueError (''Column '' @ quoted ''y'' @ '' not found in DataFrame.''))"
    and 2: "validate example_world 0 ''label'' 2 (Fin 3)
     = Inl (TypeError (''Column '' @ quoted ''label'' @ '' must be numeric.''))"
    and 3: "validate example_world 0 ''x'' (- 1) (Fin 3)
     = Inl (ValueError ''Number of outliers must be non-negative.'')"
    and 4: "validate example_world 0 ''x'' 2 (Fin 0)
     = Inl (ValueError ''Standard deviation multiplier must be positive.'')"
    by (simp_all add: validate_def example_deref column_names_def getitem_def example_table_def)
  show ?thesis
    using 1 2 3 4
    by (simp add: inject_outliers_failure [OF 1] inject_outliers_failure [OF 2]
          inject_outliers_failure [OF 3] inject_outliers_failure [OF 4])
qed

section \<open>Degenerate scale\<close>



lemma fmul_NaN: "fmul x NaN = NaN"
  by (cases x) simp_all















lemma fs_logging: "fs (logging l s w) = fs w"
  by (simp add: logging_def)

lemma fs_inject_outliers: "fs (snd (inject_outliers g df c n m w)) = fs w"
proof (cases "validate w df c n m")
  case (Inl e)
  then show ?thesis by (simp add: inject_outliers_failure fs_logging)
next
  case (Inr p)
  then obtain f s where "validate w df c n m = Inr (f, s)" by (cases p) auto
  then show ?thesis by (simp add: inject_outliers_success fs_logging)
qed

lemma fs_alloc: "fs (snd (alloc f w)) = fs w"
  by (simp add: alloc_def)

lemma handlers_status: "fst (handlers a e w) = 1"
  by (simp add: handlers_def)

lemma fs_handlers: "fs (snd (handlers a e w)) = fs w"
  by (simp add: handlers_def fs_logging)

text \<open>
  The statistics on the specification's scenario \<open>x = [1, 2, 3, 4, 5]\<close>: mean 3 and
  standard deviation \<open>sqrt 2.5\<close>.
\<close>

lemma scenario_statistics:
  "series_mean [Num (Fin 1), Num (Fin 2), Num (Fin 3), Num (Fin 4), Num (Fin 5)] = Fin 3"
  "series_std [Num (Fin 1), Num (Fin 2), Num (Fin 3), Num (Fin 4), Num (Fin 5)]
     = Fin (sqrt (5 / 2))"
  by (simp_all add: series_mean_def series_std_def notna_def fsum_def fsub_def)

section \<open>The exit status\<close>

text \<open>
  Claim C9. A run of lines 80--106 ends with status 0 exactly when the load, the
  injection and the write all succeed, and with status 1 otherwise; when the load or the
  injection fails, the file system is left as it was, so no output file is produced or
  overwritten.
\<close>

theorem main_exit_status:
  assumes "main read_csv to_csv g a w = (status, w')"
  shows "(status = 0 \<longleftrightarrow>
            (\<exists>f out w2 result fs'.
               read_csv (fs w) (input_file a) = Inr f \<and>
               inject_outliers g (fst (alloc f w)) (column_name a) (num_outliers a)
                   (std_multiplier a) (snd (alloc f w)) = (Some out, w2) \<and>
               deref w2 out = Some result \<and>
               to_csv result (output_file a) (fs w) = (None, fs'))) \<and>
         (status = 0 \<or> status = 1) \<and>
         ((\<exists>e. read_csv (fs w) (input_file a) = Inl e) \<longrightarrow> status = 1 \<and> fs w' = fs w) \<and>
         (\<forall>f. read_csv (fs w) (input_file a) = Inr f \<longrightarrow>
              fst (inject_outliers g (fst (alloc f w)) (column_name a) (num_outliers a)
                     (std_multiplier a) (snd (alloc f w))) = None \<longrightarrow>
              status = 1 \<and> fs w' = fs w)"
proof (cases "read_csv (fs w) (input_file a)")
  case (Inl e)
  then have "(status, w') = handlers a e w"
    using assms by (simp add: main_def)
  then have "status = 1" "fs w' = fs w"
    using handlers_status [of a e w] fs_handlers [of a e w] by (metis fst_conv, metis snd_conv)
  then show ?thesis using Inl by simp
next
  case (Inr f)
  obtain r w2 where i: "inject_outliers g (fst (alloc f w)) (column_name a) (num_outliers a)
                   (std_multiplier a) (snd (alloc f w)) = (r, w2)"
    by (cases "inject_outliers g (fst (alloc f w)) (column_name a) (num_outliers a)
                   (std_multiplier a) (snd (alloc f w))")
  have fs2: "fs w2 = fs w"
    using fs_inject_outliers [of g "fst (alloc f w)" "column_name a" "num_outliers a"
        "std_multiplier a" "snd (alloc f w)"] i by (simp add: fs_alloc)
  note unf = main_def Let_def split_beta Inr i
  show ?thesis
  proof (cases r)
    case None
    then have "status = 1" "fs w' = fs w"
      using assms fs2 by (auto simp: unf fs_logging)
    then show ?thesis using Inr i None by simp
  next
    case (Some out)
    show ?thesis
    proof (cases "deref w2 out")
      case None
      then have "status = 1"
        using assms Some handlers_status [of a "OtherError []" w2] by (simp add: unf)
      then show ?thesis using Inr i Some None by simp
    next
      case (Some result)
      obtain x fs' where t: "to_csv result (output_file a) (fs w) = (x, fs')"
        by (cases "to_csv result (output_file a) (fs w)")
      show ?thesis
      proof (cases x)
        case None
        then have "status = 0"
          using assms \<open>r = Some out\<close> Some t fs2 by (simp add: unf)
        then show ?thesis using Inr i \<open>r = Some out\<close> Some t None by simp
      next
        case (Some e)
        then have "status = 1"
          using assms \<open>r = Some out\<close> \<open>deref w2 out = Some result\<close> t fs2
            handlers_status [of a e "w2\<lparr>fs := fs'\<rparr>"] by (simp add: unf)
        then show ?thesis
          using Inr i \<open>r = Some out\<close> \<open>deref w2 out = Some result\<close> t Some by simp
      qed
    qed
  qed
qed


theorem main_exit_status_witness:
  "example_read_csv (fs example_disk) (input_file example_args) = Inr example_table \<and>
   fst (main example_read_csv example_to_csv example_gauss example_args example_disk) = 0 \<and>
   example_read_csv (fs example_disk) ''missing.csv'' = Inl (FileNotFoundError ''missing.csv'') \<and>
   fst (main example_read_csv example_to_csv example_gauss
          (example_args\<lparr>input_file := ''missing.csv''\<rparr>) example_disk) = 1 \<and>
   fs (snd (main example_read_csv example_to_csv example_gauss
          (example_args\<lparr>input_file := ''missing.csv''\<rparr>) example_disk)) = fs example_disk"
proof -
  let ?ok = "main example_read_csv example_to_csv example_gauss example_args example_disk"
  let ?bad = "main example_read_csv example_to_csv example_gauss
          (example_args\<lparr>input_file := ''missing.csv''\<rparr>) example_disk"
  have r: "example_read_csv (fs example_disk) (input_file example_args) = Inr example_table"
    by (simp add: example_read_csv_def example_disk_def example_args_def)
  have b: "example_read_csv (fs example_disk) ''missing.csv''
             = Inl (FileNotFoundError ''missing.csv'')"
    by (simp add: example_read_csv_def example_disk_def)
  have d: "deref (snd (alloc example_table example_disk)) (fst (alloc example_table example_disk))
             = Some example_table"
    by (simp add: alloc_def deref_def)
  have n: "(0::int) \<le> num_outliers example_args"
    and m: "\<not> fle (std_multiplier example_args) (Fin 0)"
    and c: "numeric_column example_table (column_name example_args)"
    by (simp_all add: example_args_def example_numeric)
  obtain s w2 where
    i: "inject_outliers example_gauss (fst (alloc example_table example_disk))
          (column_name example_args) (num_outliers example_args) (std_multiplier example_args)
          (snd (alloc example_table example_disk))
        = (Some (length (frames (snd (alloc example_table example_disk)))), w2)"
    and o: "deref w2 (length (frames (snd (alloc example_table example_disk)))) =
        Some (pd_concat example_table (DataFrame (column_name example_args)
          (outliers_of example_gauss s (std_multiplier example_args) (num_outliers example_args))))"
    using inject_outliers_valid [OF d c n m, of example_gauss] by blast
  have "fst ?ok = 0"
    using main_exit_status [of example_read_csv example_to_csv example_gauss example_args
        example_disk "fst ?ok" "snd ?ok"] r i o
    by (simp add: example_to_csv_def)
  moreover have "fst ?bad = 1 \<and> fs (snd ?bad) = fs example_disk"
    using main_exit_status [of example_read_csv example_to_csv example_gauss
        "example_args\<lparr>input_file := ''missing.csv''\<rparr>" example_disk "fst ?bad" "snd ?bad"] b
    by simp
  ultimately show ?thesis using r b by simp
qed

end
